theory Spec2Isabelle
  imports Main
begin

section \<open>Python strings\<close>

text \<open>
  A Python \<open>str\<close> is modelled as a \<open>string\<close>, one \<open>char\<close> per code point (code
  points below 256). \<open>isspace\<close> is \<open>str.isspace\<close> on that range: TAB, LF, VT, FF, CR,
  the separators 0x1C to 0x1F, the space, NEL (0x85) and the no-break space (0xA0).
\<close>

definition isspace :: "char \<Rightarrow> bool" where
  "isspace c =
     (let n = (of_char c :: nat)
      in (9 \<le> n \<and> n \<le> 13) \<or> (28 \<le> n \<and> n \<le> 32) \<or> n = 133 \<or> n = 160)"

text \<open>
  \<open>s.split()\<close> with no argument: runs of whitespace separate the words, and no empty
  word is produced. \<open>split_from cur s\<close> scans \<open>s\<close> with \<open>cur\<close> the word read so far.
\<close>

fun split_from :: "string \<Rightarrow> string \<Rightarrow> string list" where
  "split_from cur [] = (if cur = [] then [] else [cur])"
| "split_from cur (c # cs) =
     (if isspace c then (if cur = [] then split_from [] cs else cur # split_from [] cs)
      else split_from (cur @ [c]) cs)"

definition str_split :: "string \<Rightarrow> string list" where
  "str_split s = split_from [] s"

text \<open>\<open>sep.join(ws)\<close>: the words with \<open>sep\<close> between neighbours.\<close>

fun str_join :: "string \<Rightarrow> string list \<Rightarrow> string" where
  "str_join sep [] = []"
| "str_join sep [w] = w"
| "str_join sep (w # v # ws) = w @ sep @ str_join sep (v # ws)"

text \<open>\<open>s.startswith(p)\<close> and \<open>s.endswith(p)\<close>.\<close>

definition startswith :: "string \<Rightarrow> string \<Rightarrow> bool" where
  "startswith s p = (take (length p) s = p)"

definition endswith :: "string \<Rightarrow> string \<Rightarrow> bool" where
  "endswith s p = (length p \<le> length s \<and> drop (length s - length p) s = p)"

section \<open>Exceptions\<close>

text \<open>
  The exceptions of \<open>core.py\<close>, by class and argument: every \<open>raise\<close> of the module is
  a \<open>ValueError\<close> with a message, every failed \<open>assert\<close> an \<open>AssertionError\<close> with
  the assertion's message, reading a local variable that was never assigned an
  \<open>UnboundLocalError\<close> (here with the variable's name), and reading an attribute
  that an object does not have an \<open>AttributeError\<close> (here with the attribute's name).
\<close>

datatype error =
    ValueError string
  | AssertionError string
  | UnboundLocalError string
  | AttributeError string

datatype exception_class =
    ValueError_class
  | AssertionError_class
  | UnboundLocalError_class
  | AttributeError_class

fun class_of :: "error \<Rightarrow> exception_class" where
  "class_of (ValueError m) = ValueError_class"
| "class_of (AssertionError m) = AssertionError_class"
| "class_of (UnboundLocalError v) = UnboundLocalError_class"
| "class_of (AttributeError a) = AttributeError_class"

definition too_short :: string where
  "too_short = ''Text input is too short. Please provide a longer text.''"

definition too_long :: string where
  "too_long = ''Text input is too long. Please provide a shorter text.''"

definition not_english :: string where
  "not_english = ''Audio input is not in English. Please provide an English audio file.''"

section \<open>ProcessTextInput\<close>

text \<open>
  The constructor asserts that the text is not empty. \<open>_process\<close> takes the bounds
  \<open>min_length\<close> and \<open>max_length\<close>, 30 and 2000 when the caller gives none.
\<close>

record ProcessTextInput =
  self_text :: string

definition ProcessTextInput_init :: "string \<Rightarrow> error + ProcessTextInput" where
  "ProcessTextInput_init t =
     (if t = [] then Inl (AssertionError ''Text input cannot be empty.'')
      else Inr \<lparr>self_text = t\<rparr>)"

definition ProcessTextInput_process :: "ProcessTextInput \<Rightarrow> nat \<Rightarrow> nat \<Rightarrow> error + string" where
  "ProcessTextInput_process self min_length max_length =
     (if length (str_split (self_text self)) < min_length then Inl (ValueError too_short)
      else if length (str_split (self_text self)) > max_length then Inl (ValueError too_long)
      else Inr (self_text self))"

definition ProcessTextInput_process_default :: "ProcessTextInput \<Rightarrow> error + string" where
  "ProcessTextInput_process_default self = ProcessTextInput_process self 30 2000"

section \<open>External collaborators\<close>

text \<open>
  The file system, the vision model, the speech model, the PDF library, the crawler, the
  text-generation service and the JSON decoder are outside the module. Each enters the
  model as a function from what the module passes to what the module reads back, so a
  theorem about all \<open>services\<close> is one about every answer a collaborator can give.
  Loading a model and constructing a client, which the constructors of the audio, topic,
  user-bio and generator classes do, is taken to succeed.
\<close>

record transcript =
  transcript_text :: string
  language :: string

text \<open>
  A result of the crawler, with the attributes of crawl4ai's \<open>CrawlResult\<close> that
  matter here: \<open>success\<close>, \<open>markdown\<close> and \<open>error_message\<close>. A \<open>CrawlResult\<close>
  has no attribute named \<open>error\<close>.
\<close>

record crawl_result =
  success :: bool
  markdown :: string
  error_message :: string

text \<open>
  The answer of the text-generation service to the flash-card request: its list of
  choices, each given by its message content, which is a string or \<open>None\<close>.
\<close>

record chat_completion =
  choices :: "string option list"

record UserBio =
  name :: string
  age :: int
  degree_name :: string
  degree_year :: int
  course_name :: string
  interested_subjects :: "string list"

text \<open>
  A decoded JSON value, as \<open>json.loads\<close> returns it: \<open>None\<close>, \<open>bool\<close>, \<open>int\<close>,
  \<open>float\<close> (kept as its literal, the module never reads one), \<open>str\<close>, \<open>list\<close> and
  \<open>dict\<close> (its items in order).
\<close>

datatype json =
    JNull
  | JBool bool
  | JInt int
  | JFloat string
  | JStr string
  | JArr "json list"
  | JObj "(string \<times> json) list"

record services =
  path_exists :: "string \<Rightarrow> bool"
  vision_text :: "string \<Rightarrow> string"
  transcribe :: "string \<Rightarrow> transcript"
  pdf_pages :: "string \<Rightarrow> string list"
  arun_many :: "string \<Rightarrow> crawl_result list"
  topic_completion :: "string \<Rightarrow> string"
  bio_completion :: "UserBio \<Rightarrow> string"
  generation_completion :: "string \<Rightarrow> int \<Rightarrow> chat_completion"
  json_loads :: "string \<Rightarrow> string + json"

text \<open>
  \<open>path_exists\<close> is \<open>os.path.exists\<close>; \<open>vision_text p\<close> is the message content of the
  vision model's first choice for the image at \<open>p\<close>; \<open>transcribe\<close> is the speech
  model's result; \<open>pdf_pages p\<close> is \<open>page.get_text()\<close> for each page of the document
  at \<open>p\<close>, in order; \<open>arun_many u\<close> is the crawler's result list for \<open>urls=[u]\<close>;
  \<open>topic_completion\<close> and \<open>bio_completion\<close> are the message content answered to the
  topic prompt and to the user-bio prompt; \<open>generation_completion c n\<close> is the
  completion answered to the flash-card prompt formatted with content \<open>c\<close> and \<open>n\<close>
  cards; \<open>json_loads\<close> is \<open>json.loads\<close> on a string, \<open>Inl\<close> carrying the text of the
  exception it raised.

  What the module does to the outside: the lines it prints and the requests it sends to
  the flash-card generation service.
\<close>

record world =
  stdout :: "string list"
  generation_calls :: nat

section \<open>ProcessImageInput\<close>

record ProcessImageInput =
  image_path :: string
  extension :: string

definition ProcessImageInput_init :: "services \<Rightarrow> string \<Rightarrow> error + ProcessImageInput" where
  "ProcessImageInput_init sv p =
     (if \<not> path_exists sv p then Inl (AssertionError ''Image path does not exist.'')
      else if \<not> (endswith p ''.png'' \<or> endswith p ''.jpeg'')
      then Inl (AssertionError ''Image path must be a .png, or .jpeg file.'')
      else Inr \<lparr>image_path = p,
                extension = (if endswith p ''.png'' then ''png'' else ''jpeg'')\<rparr>)"

definition ProcessImageInput_process :: "services \<Rightarrow> ProcessImageInput \<Rightarrow> error + string" where
  "ProcessImageInput_process sv self =
     (let text = vision_text sv (image_path self)
      in if length (str_split text) < 10 then Inl (ValueError too_short)
         else Inr text)"

section \<open>ProcessAudioInput\<close>

record ProcessAudioInput =
  audio_path :: string

definition ProcessAudioInput_init :: "services \<Rightarrow> string \<Rightarrow> error + ProcessAudioInput" where
  "ProcessAudioInput_init sv p =
     (if \<not> path_exists sv p then Inl (AssertionError ''Audio path does not exist.'')
      else if \<not> (endswith p ''.mp3'' \<or> endswith p ''.wav'')
      then Inl (AssertionError ''Audio path must be a .mp3, or .wav file.'')
      else Inr \<lparr>audio_path = p\<rparr>)"

definition ProcessAudioInput_process :: "services \<Rightarrow> ProcessAudioInput \<Rightarrow> error + string" where
  "ProcessAudioInput_process sv self =
     (let tr = transcribe sv (audio_path self);
          text = transcript_text tr
      in if length (str_split text) < 10 then Inl (ValueError too_short)
         else if language tr \<noteq> ''en'' then Inl (ValueError not_english)
         else Inr text)"

section \<open>ProcessPDF\<close>

text \<open>
  \<open>_process\<close> encodes each page's text to UTF-8 and decodes it again, which gives the
  text back. \<open>combined_text\<close> is assigned only in the branch for more than one page, so
  the final \<open>return combined_text\<close> reads an unassigned local whenever the document has
  one page of at least 10 words, or no page at all.
\<close>

record ProcessPDF =
  pdf_path :: string

definition ProcessPDF_init :: "services \<Rightarrow> string \<Rightarrow> error + ProcessPDF" where
  "ProcessPDF_init sv p =
     (if \<not> path_exists sv p then Inl (AssertionError ''PDF path does not exist.'')
      else if \<not> endswith p ''.pdf'' then Inl (AssertionError ''PDF path must be a .pdf file.'')
      else Inr \<lparr>pdf_path = p\<rparr>)"

definition ProcessPDF_process :: "services \<Rightarrow> ProcessPDF \<Rightarrow> error + string" where
  "ProcessPDF_process sv self =
     (let page_content = pdf_pages sv (pdf_path self)
      in if length page_content = 1 \<and> length (str_split (page_content ! 0)) < 10
         then Inl (ValueError too_short)
         else if length page_content > 1
         then (let combined_text = concat page_content
               in Inr (if length (str_split combined_text) > 4000
                       then str_join '' '' (take 4000 (str_split combined_text))
                       else combined_text))
         else Inl (UnboundLocalError ''combined_text''))"

section \<open>ProcessLink\<close>

text \<open>
  \<open>_process\<close> returns from inside the loop over the crawl results, after the first
  one. A successful result gives its markdown. For a failed one the method formats the
  line to print from \<open>res.error\<close>, an attribute the result does not have, so it raises
  \<open>AttributeError\<close> before anything is printed or returned. With no result at all the
  loop body never runs and the method returns \<open>None\<close>.
\<close>

record ProcessLink =
  link :: string

definition ProcessLink_init :: "string \<Rightarrow> error + ProcessLink" where
  "ProcessLink_init l =
     (if \<not> startswith l ''http'' then Inl (AssertionError ''Link must start with http.'')
      else Inr \<lparr>link = l\<rparr>)"

definition ProcessLink_process ::
    "services \<Rightarrow> ProcessLink \<Rightarrow> world \<Rightarrow> (error + string list option) \<times> world" where
  "ProcessLink_process sv self w =
     (case arun_many sv (link self) of
        [] \<Rightarrow> (Inr None, w)
      | res # _ \<Rightarrow>
          if success res then (Inr (Some [markdown res]), w)
          else (Inl (AttributeError ''error''), w))"

section \<open>ProcessTopic and ProcessUserBackground\<close>

record ProcessTopic =
  topic :: string

definition ProcessTopic_init :: "string \<Rightarrow> error + ProcessTopic" where
  "ProcessTopic_init t =
     (if t = [] then Inl (AssertionError ''Topic cannot be empty.'')
      else Inr \<lparr>topic = t\<rparr>)"

definition ProcessTopic_process :: "services \<Rightarrow> ProcessTopic \<Rightarrow> error + string" where
  "ProcessTopic_process sv self =
     (let text = topic_completion sv (topic self)
      in if length (str_split text) < 10 then Inl (ValueError too_short)
         else if length (str_split text) > 2000 then Inl (ValueError too_long)
         else Inr text)"

record ProcessUserBackground =
  user_bio :: UserBio

definition ProcessUserBackground_init :: "UserBio \<Rightarrow> ProcessUserBackground" where
  "ProcessUserBackground_init b = \<lparr>user_bio = b\<rparr>"

definition ProcessUserBackground_process ::
    "services \<Rightarrow> ProcessUserBackground \<Rightarrow> error + string" where
  "ProcessUserBackground_process sv self =
     (let text = bio_completion sv (user_bio self)
      in if length (str_split text) < 10 then Inl (ValueError too_short)
         else if length (str_split text) > 2000 then Inl (ValueError too_long)
         else Inr text)"

section \<open>FlashCardGenerator\<close>

text \<open>
  \<open>_generate\<close> sends one request to the generation service. Inside its \<open>try\<close> block
  it reads the message content of the first choice and decodes it with \<open>json.loads\<close>.
  Every exception raised there becomes a \<open>ValueError\<close> whose message carries the
  exception's text: the \<open>IndexError\<close> of a completion without choices, the
  \<open>TypeError\<close> of \<open>json.loads\<close> on a content that is \<open>None\<close>, and the decoder's own
  error on a string. A decoded value is returned as it is. The classes \<open>FlashCard\<close> and
  \<open>FlashCardSet\<close> declared in the method only give the schema sent with the request.
\<close>

definition parse_failure :: "string \<Rightarrow> error" where
  "parse_failure e = ValueError (''Failed to parse response: '' @ e)"

definition index_error_text :: string where
  "index_error_text = ''list index out of range''"

definition none_type_error_text :: string where
  "none_type_error_text = ''the JSON object must be str, bytes or bytearray, not NoneType''"

record FlashCardGenerator =
  num_cards :: int

definition FlashCardGenerator_init :: "int \<Rightarrow> FlashCardGenerator" where
  "FlashCardGenerator_init n = \<lparr>num_cards = n\<rparr>"

definition FlashCardGenerator_generate ::
    "services \<Rightarrow> FlashCardGenerator \<Rightarrow> string \<Rightarrow> world \<Rightarrow> (error + json) \<times> world" where
  "FlashCardGenerator_generate sv self content w =
     (let completion = generation_completion sv content (num_cards self);
          w' = w\<lparr>generation_calls := generation_calls w + 1\<rparr>
      in case choices completion of
           [] \<Rightarrow> (Inl (parse_failure index_error_text), w')
         | None # _ \<Rightarrow> (Inl (parse_failure none_type_error_text), w')
         | Some generated_text # _ \<Rightarrow>
             (case json_loads sv generated_text of
                Inl e \<Rightarrow> (Inl (parse_failure e), w')
              | Inr response \<Rightarrow> (Inr response, w')))"

text \<open>
  The shape the schema describes. A \<open>FlashCard\<close> is an object with \<open>question\<close> and
  \<open>answer\<close> strings, a \<open>category\<close> that is a string or null, and an integer
  \<open>importance\<close>; a \<open>FlashCardSet\<close> is an object with \<open>title\<close>, \<open>subject\<close> and
  \<open>difficulty_level\<close> strings, a list \<open>cards\<close> of \<open>FlashCard\<close>s and an integer
  \<open>total_cards\<close>. Every field is required.
\<close>

fun is_FlashCard :: "json \<Rightarrow> bool" where
  "is_FlashCard (JObj fs) =
     (case (map_of fs ''question'', map_of fs ''answer'',
            map_of fs ''category'', map_of fs ''importance'') of
        (Some (JStr q), Some (JStr a), Some c, Some (JInt i)) \<Rightarrow>
          (case c of JNull \<Rightarrow> True | JStr x \<Rightarrow> True | _ \<Rightarrow> False)
      | _ \<Rightarrow> False)"
| "is_FlashCard _ = False"

fun is_FlashCardSet :: "json \<Rightarrow> bool" where
  "is_FlashCardSet (JObj fs) =
     (case (map_of fs ''title'', map_of fs ''subject'', map_of fs ''cards'',
            map_of fs ''total_cards'', map_of fs ''difficulty_level'') of
        (Some (JStr t), Some (JStr s), Some (JArr cs), Some (JInt n), Some (JStr d)) \<Rightarrow>
          list_all is_FlashCard cs
      | _ \<Rightarrow> False)"
| "is_FlashCardSet _ = False"

text \<open>
  \<open>cards_counted r\<close>: the value \<open>r\<close> has a non-empty list \<open>cards\<close> and an integer
  \<open>total_cards\<close> equal to the length of that list.
\<close>

fun cards_counted :: "json \<Rightarrow> bool" where
  "cards_counted (JObj fs) =
     (case (map_of fs ''cards'', map_of fs ''total_cards'') of
        (Some (JArr cs), Some (JInt n)) \<Rightarrow> cs \<noteq> [] \<and> n = int (length cs)
      | _ \<Rightarrow> False)"
| "cards_counted _ = False"

section \<open>ContentProcessorFactory\<close>

text \<open>
  The keyword arguments of a request: each is given (\<open>Some\<close>) or absent. An absent
  string argument is read as the empty string (\<open>kwargs.get(key, "")\<close>); an absent
  \<open>user_bio\<close> is \<open>None\<close>, which is not an instance of \<open>UserBio\<close>.
\<close>

record kwargs =
  kw_text :: "string option"
  kw_image_path :: "string option"
  kw_audio_path :: "string option"
  kw_pdf_path :: "string option"
  kw_link :: "string option"
  kw_topic :: "string option"
  kw_user_bio :: "UserBio option"

definition get_str :: "string option \<Rightarrow> string" where
  "get_str v = (case v of None \<Rightarrow> [] | Some s \<Rightarrow> s)"

datatype processor =
    TextProcessor ProcessTextInput
  | ImageProcessor ProcessImageInput
  | AudioProcessor ProcessAudioInput
  | PDFProcessor ProcessPDF
  | LinkProcessor ProcessLink
  | TopicProcessor ProcessTopic
  | UserBackgroundProcessor ProcessUserBackground

definition input_kinds :: "string set" where
  "input_kinds = {''text'', ''image'', ''audio'', ''pdf'', ''link'', ''topic'', ''user_bio''}"

definition create_processor :: "services \<Rightarrow> string \<Rightarrow> kwargs \<Rightarrow> error + processor" where
  "create_processor sv input_type kw =
     (if input_type = ''text''
      then map_sum id TextProcessor (ProcessTextInput_init (get_str (kw_text kw)))
      else if input_type = ''image''
      then map_sum id ImageProcessor (ProcessImageInput_init sv (get_str (kw_image_path kw)))
      else if input_type = ''audio''
      then map_sum id AudioProcessor (ProcessAudioInput_init sv (get_str (kw_audio_path kw)))
      else if input_type = ''pdf''
      then map_sum id PDFProcessor (ProcessPDF_init sv (get_str (kw_pdf_path kw)))
      else if input_type = ''link''
      then map_sum id LinkProcessor (ProcessLink_init (get_str (kw_link kw)))
      else if input_type = ''topic''
      then map_sum id TopicProcessor (ProcessTopic_init (get_str (kw_topic kw)))
      else if input_type = ''user_bio''
      then (case kw_user_bio kw of
              None \<Rightarrow> Inl (ValueError ''user_bio must be an instance of UserBio'')
            | Some b \<Rightarrow> Inr (UserBackgroundProcessor (ProcessUserBackground_init b)))
      else Inl (ValueError (''Unknown input type: '' @ input_type)))"

text \<open>
  \<open>process_content\<close> builds the processor and runs it. The link processor's list of
  markdowns is joined with blank lines, an empty list or \<open>None\<close> giving the empty
  string, and an exception of the link processor goes on to the caller; every other processor's result is returned as it is. \<open>run_processor\<close> is
  the call \<open>processor._process()\<close> of the branch for the kinds other than link, which
  a link processor never reaches.
\<close>

fun run_processor :: "services \<Rightarrow> processor \<Rightarrow> error + string" where
  "run_processor sv (TextProcessor p) = ProcessTextInput_process_default p"
| "run_processor sv (ImageProcessor p) = ProcessImageInput_process sv p"
| "run_processor sv (AudioProcessor p) = ProcessAudioInput_process sv p"
| "run_processor sv (PDFProcessor p) = ProcessPDF_process sv p"
| "run_processor sv (TopicProcessor p) = ProcessTopic_process sv p"
| "run_processor sv (UserBackgroundProcessor p) = ProcessUserBackground_process sv p"
| "run_processor sv (LinkProcessor p) = Inr []"

definition process_content ::
    "services \<Rightarrow> string \<Rightarrow> kwargs \<Rightarrow> world \<Rightarrow> (error + string) \<times> world" where
  "process_content sv input_type kw w =
     (case create_processor sv input_type kw of
        Inl e \<Rightarrow> (Inl e, w)
      | Inr (LinkProcessor p) \<Rightarrow>
          (case ProcessLink_process sv p w of
             (Inl e, w') \<Rightarrow> (Inl e, w')
           | (Inr None, w') \<Rightarrow> (Inr [], w')
           | (Inr (Some content), w') \<Rightarrow>
               (Inr (if content = [] then []
                     else str_join [CHR 0x0A, CHR 0x0A] content), w'))
      | Inr processor \<Rightarrow> (run_processor sv processor, w))"

section \<open>FlashCardService\<close>

record FlashCardService =
  generator :: FlashCardGenerator

definition FlashCardService_init :: "int \<Rightarrow> FlashCardService" where
  "FlashCardService_init n = \<lparr>generator = FlashCardGenerator_init n\<rparr>"

definition no_content_message :: "string \<Rightarrow> string" where
  "no_content_message input_type =
     ''Failed to process '' @ input_type @ '' input or no content was extracted''"

definition generate_from_input ::
    "services \<Rightarrow> FlashCardService \<Rightarrow> string \<Rightarrow> kwargs \<Rightarrow> world \<Rightarrow> (error + json) \<times> world" where
  "generate_from_input sv self input_type kw w =
     (case process_content sv input_type kw w of
        (Inl e, w') \<Rightarrow> (Inl e, w')
      | (Inr content, w') \<Rightarrow>
          if content = [] then (Inl (ValueError (no_content_message input_type)), w')
          else FlashCardGenerator_generate sv (generator self) content w')"

section \<open>Inputs used to exercise the theorems\<close>

text \<open>A word, as \<open>split\<close> produces it: not empty and free of whitespace.\<close>

definition is_word :: "string \<Rightarrow> bool" where
  "is_word w = (w \<noteq> [] \<and> (\<forall>c \<in> set w. \<not> isspace c))"

text \<open>\<open>words_text n\<close> is a text of exactly \<open>n\<close> words.\<close>

definition words_text :: "nat \<Rightarrow> string" where
  "words_text n = concat (replicate n ''w '')"

text \<open>Collaborators that answer nothing: no path exists, every answer is empty.\<close>

definition offline :: services where
  "offline =
     \<lparr>path_exists = (\<lambda>p. False),
      vision_text = (\<lambda>p. []),
      transcribe = (\<lambda>p. \<lparr>transcript_text = [], language = []\<rparr>),
      pdf_pages = (\<lambda>p. []),
      arun_many = (\<lambda>u. []),
      topic_completion = (\<lambda>t. []),
      bio_completion = (\<lambda>b. []),
      generation_completion = (\<lambda>c n. \<lparr>choices = []\<rparr>),
      json_loads = (\<lambda>s. Inl ''Expecting value: line 1 column 1 (char 0)'')\<rparr>"

definition no_kwargs :: kwargs where
  "no_kwargs =
     \<lparr>kw_text = None, kw_image_path = None, kw_audio_path = None, kw_pdf_path = None,
      kw_link = None, kw_topic = None, kw_user_bio = None\<rparr>"

definition quiet :: world where
  "quiet = \<lparr>stdout = [], generation_calls = 0\<rparr>"

text \<open>Collaborators whose vision, speech, topic and bio answers are all the text \<open>t\<close>, spoken in language \<open>l\<close>.\<close>

definition answering :: "string \<Rightarrow> string \<Rightarrow> services" where
  "answering t l =
     offline\<lparr>vision_text := \<lambda>p. t,
             transcribe := \<lambda>p. \<lparr>transcript_text = t, language = l\<rparr>,
             topic_completion := \<lambda>p. t,
             bio_completion := \<lambda>b. t\<rparr>"

definition student :: UserBio where
  "student = \<lparr>name = ''Ada'', age = 20, degree_name = ''BSc'', degree_year = 2,
              course_name = ''Mathematics'', interested_subjects = [''Algebra'']\<rparr>"

definition ten_words :: string where
  "ten_words = ''one two three four five six seven eight nine ten''"

text \<open>Two decoded responses of the generation service: a set that announces five cards and holds none, and a set of one card.\<close>

definition empty_set_response :: json where
  "empty_set_response =
     JObj [(''title'', JStr ''Sets''), (''subject'', JStr ''Mathematics''), (''cards'', JArr []),
           (''total_cards'', JInt 5), (''difficulty_level'', JStr ''Beginner'')]"

definition one_card_response :: json where
  "one_card_response =
     JObj [(''title'', JStr ''Sets''), (''subject'', JStr ''Mathematics''),
           (''cards'', JArr [JObj [(''question'', JStr ''What is a set?''),
                                  (''answer'', JStr ''A collection of distinct elements.''),
                                  (''category'', JNull), (''importance'', JInt 5)]]),
           (''total_cards'', JInt 1), (''difficulty_level'', JStr ''Beginner'')]"

text \<open>
  The texts of those two responses. \<open>dq s\<close> is \<open>s\<close> between double quotes, the JSON
  literal of a string without quotes or backslashes.
\<close>

definition dq :: "string \<Rightarrow> string" where
  "dq s = CHR 0x22 # s @ [CHR 0x22]"

definition empty_set_text :: string where
  "empty_set_text =
     ''{'' @ dq ''title'' @ '': '' @ dq ''Sets'' @ '', '' @
     dq ''subject'' @ '': '' @ dq ''Mathematics'' @ '', '' @
     dq ''cards'' @ '': [], '' @
     dq ''total_cards'' @ '': 5, '' @
     dq ''difficulty_level'' @ '': '' @ dq ''Beginner'' @ ''}''"

definition one_card_text :: string where
  "one_card_text =
     ''{'' @ dq ''title'' @ '': '' @ dq ''Sets'' @ '', '' @
     dq ''subject'' @ '': '' @ dq ''Mathematics'' @ '', '' @
     dq ''cards'' @ '': [{'' @
       dq ''question'' @ '': '' @ dq ''What is a set?'' @ '', '' @
       dq ''answer'' @ '': '' @ dq ''A collection of distinct elements.'' @ '', '' @
       dq ''category'' @ '': null, '' @
       dq ''importance'' @ '': 5}], '' @
     dq ''total_cards'' @ '': 1, '' @
     dq ''difficulty_level'' @ '': '' @ dq ''Beginner'' @ ''}''"

text \<open>
  \<open>decoding table\<close> is \<open>json.loads\<close> on the texts listed in \<open>table\<close>, each with the
  value it decodes to, and on the empty text, where \<open>json.loads\<close> raises with the
  message below. \<open>replying cs table\<close> are collaborators whose generation service
  answers with the choices \<open>cs\<close>.
\<close>

definition decoding :: "(string \<times> json) list \<Rightarrow> string \<Rightarrow> string + json" where
  "decoding table s =
     (case map_of table s of
        Some j \<Rightarrow> Inr j
      | None \<Rightarrow> Inl ''Expecting value: line 1 column 1 (char 0)'')"

definition replying :: "string option list \<Rightarrow> (string \<times> json) list \<Rightarrow> services" where
  "replying cs table =
     offline\<lparr>generation_completion := \<lambda>c n. \<lparr>choices = cs\<rparr>, json_loads := decoding table\<rparr>"

text \<open>A crawl that failed, and a request for a link.\<close>

definition unreachable :: crawl_result where
  "unreachable =
     \<lparr>success = False, markdown = [], error_message = ''net::ERR_NAME_NOT_RESOLVED''\<rparr>"

definition link_request :: kwargs where
  "link_request = no_kwargs\<lparr>kw_link := Some ''http://example.invalid''\<rparr>"

section \<open>Splitting and joining\<close>

lemma isspace_space: "isspace CHR '' ''"
  by (simp add: isspace_def)

lemma split_from_nospace:
  "\<forall>c \<in> set w. \<not> isspace c \<Longrightarrow> split_from cur (w @ rest) = split_from (cur @ w) rest"
  by (induction w arbitrary: cur) auto

lemma split_from_words:
  "w \<in> set (split_from cur s) \<Longrightarrow> \<forall>c \<in> set cur. \<not> isspace c \<Longrightarrow> is_word w"
proof (induction s arbitrary: cur)
  case Nil
  then show ?case by (cases "cur = []") (simp_all add: is_word_def)
next
  case (Cons c cs)
  show ?case
  proof (cases "isspace c")
    case True
    show ?thesis
    proof (cases "cur = []")
      case True
      with \<open>isspace c\<close> Cons.prems(1) have "w \<in> set (split_from [] cs)" by simp
      then show ?thesis by (rule Cons.IH) simp
    next
      case False
      with \<open>isspace c\<close> Cons.prems(1) have "w = cur \<or> w \<in> set (split_from [] cs)" by simp
      then show ?thesis
      proof
        assume "w = cur"
        with False Cons.prems(2) show ?thesis by (simp add: is_word_def)
      next
        assume "w \<in> set (split_from [] cs)"
        then show ?thesis by (rule Cons.IH) simp
      qed
    qed
  next
    case False
    with Cons.prems(1) have "w \<in> set (split_from (cur @ [c]) cs)" by simp
    moreover from False Cons.prems(2) have "\<forall>x \<in> set (cur @ [c]). \<not> isspace x" by simp
    ultimately show ?thesis by (rule Cons.IH)
  qed
qed

lemma str_split_words: "\<forall>w \<in> set (str_split s). is_word w"
  using split_from_words [of _ "[]" s] by (simp add: str_split_def)

lemma split_from_word_end:
  "is_word w \<Longrightarrow> split_from [] w = [w]"
  using split_from_nospace [of w "[]" "[]"] by (simp add: is_word_def)

lemma split_from_word_space:
  "is_word w \<Longrightarrow> split_from [] (w @ CHR '' '' # rest) = w # split_from [] rest"
  using split_from_nospace [of w "[]" "CHR '' '' # rest"] by (simp add: is_word_def isspace_space)

lemma str_split_join:
  "\<forall>w \<in> set ws. is_word w \<Longrightarrow> str_split (str_join '' '' ws) = ws"
proof (induction "'' ''" ws rule: str_join.induct)
  case 1
  then show ?case by (simp add: str_split_def)
next
  case (2 w)
  then show ?case by (simp add: str_split_def split_from_word_end)
next
  case (3 w v ws)
  then show ?case by (simp add: str_split_def split_from_word_space)
qed

lemma str_split_join_take:
  "str_split (str_join '' '' (take n (str_split s))) = take n (str_split s)"
proof (rule str_split_join)
  show "\<forall>w \<in> set (take n (str_split s)). is_word w"
    using str_split_words [of s] by (meson in_set_takeD)
qed

lemma split_from_replicate:
  "is_word w \<Longrightarrow> split_from [] (concat (replicate n (w @ '' '')) @ rest) = replicate n w @ split_from [] rest"
  by (induction n) (simp_all add: split_from_word_space)

lemma str_split_words_text: "str_split (words_text n) = replicate n ''w''"
  using split_from_replicate [of "''w''" n "[]"]
  by (simp add: str_split_def words_text_def is_word_def isspace_def)

lemma length_words_text: "length (str_split (words_text n)) = n"
  by (simp add: str_split_words_text)

lemma concat_words_text: "words_text m @ words_text n = words_text (m + n)"
  by (simp add: words_text_def replicate_add)

section \<open>ProcessTextInput: the word-count bounds\<close>

text \<open>
  C5. With the default bounds, a text of 30 to 2000 words (both included) is returned
  unchanged; a text of fewer than 30 words fails with the too-short \<open>ValueError\<close> and
  one of more than 2000 words with the too-long \<open>ValueError\<close>.
\<close>

theorem text_process_bounds:
  "(30 \<le> length (str_split (self_text self)) \<and> length (str_split (self_text self)) \<le> 2000
      \<longrightarrow> ProcessTextInput_process_default self = Inr (self_text self)) \<and>
   (length (str_split (self_text self)) < 30
      \<longrightarrow> ProcessTextInput_process_default self = Inl (ValueError too_short)) \<and>
   (2000 < length (str_split (self_text self))
      \<longrightarrow> ProcessTextInput_process_default self = Inl (ValueError too_long))"
  by (simp add: ProcessTextInput_process_default_def ProcessTextInput_process_def)

theorem text_process_bounds_witness:
  "ProcessTextInput_init (words_text 30) = Inr \<lparr>self_text = words_text 30\<rparr> \<and>
   ProcessTextInput_process_default \<lparr>self_text = words_text 30\<rparr> = Inr (words_text 30) \<and>
   ProcessTextInput_process_default \<lparr>self_text = words_text 2000\<rparr> = Inr (words_text 2000) \<and>
   ProcessTextInput_process_default \<lparr>self_text = words_text 29\<rparr> = Inl (ValueError too_short) \<and>
   ProcessTextInput_process_default \<lparr>self_text = words_text 2001\<rparr> = Inl (ValueError too_long)"
proof -
  have "words_text 30 \<noteq> []"
    using length_words_text [of 30] by (auto simp: str_split_def)
  then have "ProcessTextInput_init (words_text 30) = Inr \<lparr>self_text = words_text 30\<rparr>"
    by (simp add: ProcessTextInput_init_def)
  then show ?thesis
    using text_process_bounds [of "\<lparr>self_text = words_text 30\<rparr>"]
      text_process_bounds [of "\<lparr>self_text = words_text 2000\<rparr>"]
      text_process_bounds [of "\<lparr>self_text = words_text 29\<rparr>"]
      text_process_bounds [of "\<lparr>self_text = words_text 2001\<rparr>"]
    by (simp add: length_words_text)
qed

section \<open>ProcessPDF: short single pages and long documents\<close>

text \<open>
  C1. A document of exactly one page with fewer than 10 words fails with the too-short
  \<open>ValueError\<close>. A document of more than one page never fails; when its concatenated
  text has more than 4000 words the result is the first 4000 words joined by single
  spaces, a text whose own word list is those 4000 words.
\<close>

theorem pdf_process_short_and_truncation:
  "(pdf_pages sv (pdf_path self) = [p] \<and> length (str_split p) < 10
      \<longrightarrow> ProcessPDF_process sv self = Inl (ValueError too_short)) \<and>
   (1 < length (pdf_pages sv (pdf_path self))
      \<longrightarrow> (\<exists>t. ProcessPDF_process sv self = Inr t)) \<and>
   (1 < length (pdf_pages sv (pdf_path self)) \<and>
    4000 < length (str_split (concat (pdf_pages sv (pdf_path self))))
      \<longrightarrow> ProcessPDF_process sv self =
            Inr (str_join '' '' (take 4000 (str_split (concat (pdf_pages sv (pdf_path self)))))) \<and>
          str_split (str_join '' '' (take 4000 (str_split (concat (pdf_pages sv (pdf_path self)))))) =
            take 4000 (str_split (concat (pdf_pages sv (pdf_path self)))) \<and>
          length (str_split (str_join '' '' (take 4000 (str_split (concat (pdf_pages sv (pdf_path self))))))) = 4000)"
proof (intro conjI impI)
  assume "pdf_pages sv (pdf_path self) = [p] \<and> length (str_split p) < 10"
  then show "ProcessPDF_process sv self = Inl (ValueError too_short)"
    by (simp add: ProcessPDF_process_def)
next
  assume "1 < length (pdf_pages sv (pdf_path self))"
  then show "\<exists>t. ProcessPDF_process sv self = Inr t"
    by (simp add: ProcessPDF_process_def Let_def)
next
  assume h: "1 < length (pdf_pages sv (pdf_path self)) \<and>
    4000 < length (str_split (concat (pdf_pages sv (pdf_path self))))"
  then show "ProcessPDF_process sv self =
            Inr (str_join '' '' (take 4000 (str_split (concat (pdf_pages sv (pdf_path self))))))"
    by (simp add: ProcessPDF_process_def Let_def)
  show "str_split (str_join '' '' (take 4000 (str_split (concat (pdf_pages sv (pdf_path self)))))) =
            take 4000 (str_split (concat (pdf_pages sv (pdf_path self))))"
    by (rule str_split_join_take)
  from h show "length (str_split (str_join '' '' (take 4000 (str_split (concat (pdf_pages sv (pdf_path self))))))) = 4000"
    by (simp add: str_split_join_take)
qed

theorem pdf_process_short_and_truncation_witness:
  "ProcessPDF_process (offline\<lparr>pdf_pages := \<lambda>p. [''only three words'']\<rparr>) \<lparr>pdf_path = ''a.pdf''\<rparr>
     = Inl (ValueError too_short) \<and>
   ProcessPDF_process (offline\<lparr>pdf_pages := \<lambda>p. [words_text 4001, words_text 1]\<rparr>) \<lparr>pdf_path = ''a.pdf''\<rparr>
     = Inr (str_join '' '' (replicate 4000 ''w'')) \<and>
   length (str_split (str_join '' '' (replicate 4000 ''w''))) = 4000"
proof -
  have short: "length (str_split ''only three words'') < 10"
    by (simp add: str_split_def isspace_def)
  have long: "str_split (concat [words_text 4001, words_text 1]) = replicate 4002 ''w''"
    by (simp add: concat_words_text str_split_words_text)
  show ?thesis
    using pdf_process_short_and_truncation
        [of "offline\<lparr>pdf_pages := \<lambda>p. [''only three words'']\<rparr>" "\<lparr>pdf_path = ''a.pdf''\<rparr>"
            "''only three words''"]
      pdf_process_short_and_truncation
        [of "offline\<lparr>pdf_pages := \<lambda>p. [words_text 4001, words_text 1]\<rparr>" "\<lparr>pdf_path = ''a.pdf''\<rparr>"]
      short long
    by (simp del: concat.simps)
qed

section \<open>Facts shared by the theorems below\<close>

lemma message_distinct:
  "too_short \<noteq> not_english" "too_short \<noteq> too_long" "too_long \<noteq> not_english"
  by (simp_all add: too_short_def not_english_def too_long_def)

text \<open>
  Extraction leaves the world as it was, so when it yields the empty text the facade
  fails with the no-content \<open>ValueError\<close> and no request has reached the generation
  service. A document of two blank pages is such a case.
\<close>

lemma link_process_world: "snd (ProcessLink_process sv p w) = w"
  by (simp add: ProcessLink_process_def split: list.splits)

lemma process_content_world: "snd (process_content sv input_type kw w) = w"
proof (cases "create_processor sv input_type kw")
  case (Inl e)
  then show ?thesis by (simp add: process_content_def)
next
  case (Inr pr)
  show ?thesis
  proof (cases pr)
    case (LinkProcessor p)
    obtain c w' where lp: "ProcessLink_process sv p w = (c, w')"
      by (cases "ProcessLink_process sv p w")
    with link_process_world [of sv p w] have "w' = w"
      by simp
    with Inr LinkProcessor lp show ?thesis
      by (simp add: process_content_def split: sum.splits option.splits)
  qed (use Inr in \<open>simp_all add: process_content_def\<close>)
qed

lemma empty_content_fails_before_generation:
  assumes "fst (process_content sv input_type kw w) = Inr []"
  shows "generate_from_input sv self input_type kw w
           = (Inl (ValueError (no_content_message input_type)), w)"
proof -
  from assms process_content_world [of sv input_type kw w]
  have "process_content sv input_type kw w = (Inr [], w)"
    by (cases "process_content sv input_type kw w") simp
  then show ?thesis by (simp add: generate_from_input_def)
qed

lemma empty_pdf_has_no_content:
  "generate_from_input (offline\<lparr>path_exists := \<lambda>p. True, pdf_pages := \<lambda>p. [[], []]\<rparr>)
       (FlashCardService_init 5) ''pdf'' (no_kwargs\<lparr>kw_pdf_path := Some ''blank.pdf''\<rparr>) quiet
     = (Inl (ValueError ''Failed to process pdf input or no content was extracted''), quiet)"
proof -
  have "fst (process_content (offline\<lparr>path_exists := \<lambda>p. True, pdf_pages := \<lambda>p. [[], []]\<rparr>)
       ''pdf'' (no_kwargs\<lparr>kw_pdf_path := Some ''blank.pdf''\<rparr>) quiet) = Inr []"
    by (simp add: process_content_def create_processor_def ProcessPDF_init_def get_str_def
        endswith_def ProcessPDF_process_def str_split_def)
  from empty_content_fails_before_generation [OF this] show ?thesis
    by (simp add: no_content_message_def)
qed

section \<open>ProcessPDF: a single page of at least 10 words\<close>

text \<open>
  C2. The claim asks that every strategy either return validated text or fail with one
  of the module's own errors. \<open>ProcessPDF._process\<close> does neither on an existing
  \<open>.pdf\<close> of one page with ten words: the text passes the length check and the method
  then reads \<open>combined_text\<close>, which only the branch for several pages assigns, so it
  fails with \<open>UnboundLocalError\<close>, which is neither \<open>ValueError\<close> nor
  \<open>AssertionError\<close>.
\<close>

theorem pdf_single_page_unbound:
  "ProcessPDF_init (offline\<lparr>path_exists := \<lambda>p. True, pdf_pages := \<lambda>p. [ten_words]\<rparr>) ''notes.pdf''
     = Inr \<lparr>pdf_path = ''notes.pdf''\<rparr> \<and>
   length (str_split ten_words) = 10 \<and>
   ProcessPDF_process (offline\<lparr>path_exists := \<lambda>p. True, pdf_pages := \<lambda>p. [ten_words]\<rparr>)
       \<lparr>pdf_path = ''notes.pdf''\<rparr>
     = Inl (UnboundLocalError ''combined_text'') \<and>
   class_of (UnboundLocalError ''combined_text'') \<noteq> ValueError_class \<and>
   class_of (UnboundLocalError ''combined_text'') \<noteq> AssertionError_class"
  by (simp add: ProcessPDF_init_def ProcessPDF_process_def endswith_def ten_words_def
      str_split_def isspace_def)

section \<open>FlashCardGenerator: what is checked of the response\<close>

text \<open>
  C3, as stated, fails: the response text \<open>{}\<close> is valid JSON, the empty object it
  decodes to does not have the \<open>FlashCardSet\<close> shape, and \<open>_generate\<close> returns it.
\<close>

theorem generate_shape_counterexample:
  "FlashCardGenerator_generate (replying [Some ''{}''] [(''{}'', JObj [])])
       (FlashCardGenerator_init 5) (words_text 30) quiet
     = (Inr (JObj []), \<lparr>stdout = [], generation_calls = 1\<rparr>) \<and>
   \<not> is_FlashCardSet (JObj [])"
  by (simp add: FlashCardGenerator_generate_def FlashCardGenerator_init_def quiet_def
      replying_def decoding_def)

text \<open>
  C3, amended. \<open>_generate\<close> fails exactly when its \<open>try\<close> block raises: the completion
  has no choice, or the first choice's content is \<open>None\<close> or a text on which
  \<open>json.loads\<close> raises. It then fails with the \<open>ValueError\<close> whose message is
  \<open>Failed to parse response: \<close> followed by the text of the exception, and returns no
  value. Whatever the decoder returns is returned, of whatever shape.
\<close>

theorem generate_fails_iff_response_unreadable:
  assumes "choices (generation_completion sv content (num_cards self)) = cs"
  shows "(cs = [] \<longrightarrow>
            fst (FlashCardGenerator_generate sv self content w)
              = Inl (ValueError (''Failed to parse response: '' @ index_error_text))) \<and>
         (cs = None # rest \<longrightarrow>
            fst (FlashCardGenerator_generate sv self content w)
              = Inl (ValueError (''Failed to parse response: '' @ none_type_error_text))) \<and>
         (cs = Some t # rest \<and> json_loads sv t = Inl m \<longrightarrow>
            fst (FlashCardGenerator_generate sv self content w)
              = Inl (ValueError (''Failed to parse response: '' @ m))) \<and>
         (cs = Some t # rest \<and> json_loads sv t = Inr r \<longrightarrow>
            fst (FlashCardGenerator_generate sv self content w) = Inr r) \<and>
         (isl (fst (FlashCardGenerator_generate sv self content w))
            \<longleftrightarrow> \<not> (\<exists>t' rest' r'. cs = Some t' # rest' \<and> json_loads sv t' = Inr r'))"
  using assms
  by (auto simp: FlashCardGenerator_generate_def Let_def parse_failure_def
      split: list.splits option.splits sum.splits)

theorem generate_fails_iff_response_unreadable_witness:
  "fst (FlashCardGenerator_generate (replying [] []) (FlashCardGenerator_init 5) (words_text 30) quiet)
     = Inl (ValueError ''Failed to parse response: list index out of range'') \<and>
   fst (FlashCardGenerator_generate (replying [None] []) (FlashCardGenerator_init 5) (words_text 30) quiet)
     = Inl (ValueError (''Failed to parse response: '' @ none_type_error_text)) \<and>
   fst (FlashCardGenerator_generate (replying [Some []] []) (FlashCardGenerator_init 5) (words_text 30) quiet)
     = Inl (ValueError ''Failed to parse response: Expecting value: line 1 column 1 (char 0)'') \<and>
   fst (FlashCardGenerator_generate (replying [Some ''[]''] [(''[]'', JArr [])])
          (FlashCardGenerator_init 5) (words_text 30) quiet)
     = Inr (JArr [])"
proof -
  have c: "choices (generation_completion (replying cs table) content n) = cs" for cs table content n
    by (simp add: replying_def)
  have d: "json_loads (replying cs table) = decoding table" for cs table
    by (simp add: replying_def)
  note inst = generate_fails_iff_response_unreadable
      [where self = "FlashCardGenerator_init 5" and content = "words_text 30" and w = quiet]
  show ?thesis
    using inst [where sv = "replying [] []" and cs = "[]", OF c]
      inst [where sv = "replying [None] []" and cs = "[None]" and rest = "[]", OF c]
      inst [where sv = "replying [Some []] []" and cs = "[Some []]" and rest = "[]"
              and t = "[]" and m = "''Expecting value: line 1 column 1 (char 0)''", OF c]
      inst [where sv = "replying [Some ''[]''] [(''[]'', JArr [])]" and cs = "[Some ''[]'']"
              and rest = "[]" and t = "''[]''" and r = "JArr []", OF c]
    by (simp add: d decoding_def index_error_text_def)
qed

text \<open>
  C4, as stated, fails: a response with an empty \<open>cards\<close> list and \<open>total_cards = 5\<close>
  is returned by \<open>_generate\<close> as a success, and nothing is printed.
\<close>

theorem generate_count_counterexample:
  "FlashCardGenerator_generate (replying [Some empty_set_text] [(empty_set_text, empty_set_response)])
       (FlashCardGenerator_init 5) (words_text 30) quiet
     = (Inr empty_set_response, \<lparr>stdout = [], generation_calls = 1\<rparr>) \<and>
   is_FlashCardSet empty_set_response \<and>
   \<not> cards_counted empty_set_response"
  by (simp add: FlashCardGenerator_generate_def FlashCardGenerator_init_def quiet_def
      replying_def decoding_def empty_set_response_def)

text \<open>
  C4, amended. \<open>_generate\<close> validates nothing and flags nothing: every value that
  \<open>json.loads\<close> decodes from the first choice is returned as it is, whatever its
  \<open>cards\<close> and \<open>total_cards\<close>; a success returns nothing but such a value; and the
  call prints nothing, its only effect being the one request sent. So the returned set
  has a non-empty \<open>cards\<close> list counted by \<open>total_cards\<close> exactly when the service's
  response has.
\<close>

theorem generate_returns_response_unchecked:
  "(choices (generation_completion sv content (num_cards self)) = Some t # rest \<and>
    json_loads sv t = Inr r
      \<longrightarrow> FlashCardGenerator_generate sv self content w
            = (Inr r, w\<lparr>generation_calls := generation_calls w + 1\<rparr>)) \<and>
   (fst (FlashCardGenerator_generate sv self content w) = Inr r
      \<longrightarrow> (\<exists>t' rest'. choices (generation_completion sv content (num_cards self)) = Some t' # rest' \<and>
                     json_loads sv t' = Inr r)) \<and>
   stdout (snd (FlashCardGenerator_generate sv self content w)) = stdout w"
  by (auto simp: FlashCardGenerator_generate_def Let_def
      split: list.splits option.splits sum.splits)

theorem generate_returns_response_unchecked_witness:
  "FlashCardGenerator_generate (replying [Some one_card_text] [(one_card_text, one_card_response)])
       (FlashCardGenerator_init 1) (words_text 30) quiet
     = (Inr one_card_response, \<lparr>stdout = [], generation_calls = 1\<rparr>) \<and>
   cards_counted one_card_response"
proof -
  have h: "choices (generation_completion (replying [Some one_card_text] [(one_card_text, one_card_response)])
             (words_text 30) (num_cards (FlashCardGenerator_init 1))) = Some one_card_text # [] \<and>
           json_loads (replying [Some one_card_text] [(one_card_text, one_card_response)]) one_card_text
             = Inr one_card_response"
    by (simp add: replying_def decoding_def)
  have "cards_counted one_card_response"
    by (simp add: one_card_response_def)
  with h generate_returns_response_unchecked
      [of "replying [Some one_card_text] [(one_card_text, one_card_response)]" "words_text 30"
          "FlashCardGenerator_init 1" one_card_text "[]" one_card_response quiet]
  show ?thesis by (simp add: quiet_def)
qed

section \<open>FlashCardService: a link whose crawl fails\<close>

text \<open>
  C6. The claim asks that a link whose only crawl result reports failure yield no
  content without raising, so that the facade fails with the no-content error. On such
  a result \<open>ProcessLink._process\<close> reads \<open>res.error\<close> to print it; the result has no
  such attribute, so the method raises \<open>AttributeError\<close>, and the facade fails with
  that error, which is not a \<open>ValueError\<close>.
\<close>

theorem link_failed_crawl_raises:
  "ProcessLink_init ''http://example.invalid'' = Inr \<lparr>link = ''http://example.invalid''\<rparr> \<and>
   ProcessLink_process (offline\<lparr>arun_many := \<lambda>u. [unreachable]\<rparr>)
       \<lparr>link = ''http://example.invalid''\<rparr> quiet
     = (Inl (AttributeError ''error''), quiet) \<and>
   generate_from_input (offline\<lparr>arun_many := \<lambda>u. [unreachable]\<rparr>) (FlashCardService_init 5)
       ''link'' link_request quiet
     = (Inl (AttributeError ''error''), quiet) \<and>
   class_of (AttributeError ''error'') \<noteq> ValueError_class"
  by (simp add: ProcessLink_init_def startswith_def ProcessLink_process_def unreachable_def
      generate_from_input_def process_content_def create_processor_def link_request_def
      no_kwargs_def get_str_def)

section \<open>ContentProcessorFactory: unknown kinds\<close>

text \<open>
  C7, as stated, fails: the error raised for the unknown kind \<open>video\<close> is a
  \<open>ValueError\<close>, the same exception class as the error that validation raises for a
  text that is too short.
\<close>

theorem unknown_kind_counterexample:
  "create_processor offline ''video'' no_kwargs = Inl (ValueError ''Unknown input type: video'') \<and>
   ProcessTextInput_process_default \<lparr>self_text = ''too short''\<rparr> = Inl (ValueError too_short) \<and>
   class_of (ValueError ''Unknown input type: video'') = class_of (ValueError too_short)"
  by (simp add: create_processor_def ProcessTextInput_process_default_def
      ProcessTextInput_process_def str_split_def isspace_def)

text \<open>
  C7, amended. For every kind tag outside the seven known ones, \<open>create_processor\<close>
  fails with the \<open>ValueError\<close> whose message is \<open>Unknown input type: \<close> followed by
  the tag, and so do \<open>process_content\<close> and \<open>generate_from_input\<close>, which return no
  content and change nothing. The exception class is not \<open>AssertionError\<close>, and the
  message is none of the validation messages.
\<close>

theorem unknown_kind_fails:
  assumes "input_type \<notin> input_kinds"
  shows "create_processor sv input_type kw
           = Inl (ValueError (''Unknown input type: '' @ input_type)) \<and>
         process_content sv input_type kw w
           = (Inl (ValueError (''Unknown input type: '' @ input_type)), w) \<and>
         generate_from_input sv self input_type kw w
           = (Inl (ValueError (''Unknown input type: '' @ input_type)), w) \<and>
         class_of (ValueError (''Unknown input type: '' @ input_type)) \<noteq> AssertionError_class \<and>
         ''Unknown input type: '' @ input_type \<notin> {too_short, too_long, not_english}"
proof -
  from assms have c: "create_processor sv input_type kw
      = Inl (ValueError (''Unknown input type: '' @ input_type))"
    by (simp add: create_processor_def input_kinds_def)
  then have p: "process_content sv input_type kw w
           = (Inl (ValueError (''Unknown input type: '' @ input_type)), w)"
    by (simp add: process_content_def)
  then have g: "generate_from_input sv self input_type kw w
           = (Inl (ValueError (''Unknown input type: '' @ input_type)), w)"
    by (simp add: generate_from_input_def)
  have m: "''Unknown input type: '' @ input_type \<notin> {too_short, too_long, not_english}"
    by (simp add: too_short_def too_long_def not_english_def)
  from c p g m show ?thesis by simp
qed

theorem unknown_kind_fails_witness:
  "''video'' \<notin> input_kinds \<and>
   create_processor offline ''video'' no_kwargs = Inl (ValueError ''Unknown input type: video'') \<and>
   generate_from_input offline (FlashCardService_init 5) ''video'' no_kwargs quiet
     = (Inl (ValueError ''Unknown input type: video''), quiet)"
proof -
  have h: "''video'' \<notin> input_kinds"
    by (simp add: input_kinds_def)
  from unknown_kind_fails [OF h, of offline no_kwargs quiet "FlashCardService_init 5"] h
  show ?thesis by simp
qed

section \<open>Image, audio, topic and user bio: the minimum of 10 words\<close>

text \<open>
  C8, as stated, fails: an audio transcript of 12 words in French is rejected.
\<close>

theorem extraction_min_words_counterexample:
  "10 \<le> length (str_split (words_text 12)) \<and>
   ProcessAudioInput_process
     (offline\<lparr>transcribe := \<lambda>p. \<lparr>transcript_text = words_text 12, language = ''fr''\<rparr>\<rparr>)
     \<lparr>audio_path = ''talk.mp3''\<rparr> = Inl (ValueError not_english)"
  by (simp add: ProcessAudioInput_process_def length_words_text)

text \<open>
  C8, amended. For the image, audio, topic and user-bio strategies a text of fewer than
  10 words fails with the too-short \<open>ValueError\<close>. A text of at least 10 words is
  returned by the image strategy; by the audio strategy when the detected language is
  \<open>en\<close>; by the topic and user-bio strategies when it has at most 2000 words.
\<close>

theorem extraction_min_words:
  "(length (str_split (vision_text sv (image_path img))) < 10
      \<longrightarrow> ProcessImageInput_process sv img = Inl (ValueError too_short)) \<and>
   (10 \<le> length (str_split (vision_text sv (image_path img)))
      \<longrightarrow> ProcessImageInput_process sv img = Inr (vision_text sv (image_path img))) \<and>
   (length (str_split (transcript_text (transcribe sv (audio_path aud)))) < 10
      \<longrightarrow> ProcessAudioInput_process sv aud = Inl (ValueError too_short)) \<and>
   (10 \<le> length (str_split (transcript_text (transcribe sv (audio_path aud)))) \<and>
    language (transcribe sv (audio_path aud)) = ''en''
      \<longrightarrow> ProcessAudioInput_process sv aud = Inr (transcript_text (transcribe sv (audio_path aud)))) \<and>
   (length (str_split (topic_completion sv (topic tp))) < 10
      \<longrightarrow> ProcessTopic_process sv tp = Inl (ValueError too_short)) \<and>
   (10 \<le> length (str_split (topic_completion sv (topic tp))) \<and>
    length (str_split (topic_completion sv (topic tp))) \<le> 2000
      \<longrightarrow> ProcessTopic_process sv tp = Inr (topic_completion sv (topic tp))) \<and>
   (length (str_split (bio_completion sv (user_bio usr))) < 10
      \<longrightarrow> ProcessUserBackground_process sv usr = Inl (ValueError too_short)) \<and>
   (10 \<le> length (str_split (bio_completion sv (user_bio usr))) \<and>
    length (str_split (bio_completion sv (user_bio usr))) \<le> 2000
      \<longrightarrow> ProcessUserBackground_process sv usr = Inr (bio_completion sv (user_bio usr)))"
  by (simp add: ProcessImageInput_process_def ProcessAudioInput_process_def
      ProcessTopic_process_def ProcessUserBackground_process_def Let_def)

theorem extraction_min_words_witness:
  "ProcessImageInput_process (answering (words_text 9) ''en'') \<lparr>image_path = ''n.png'', extension = ''png''\<rparr>
     = Inl (ValueError too_short) \<and>
   ProcessImageInput_process (answering (words_text 10) ''en'') \<lparr>image_path = ''n.png'', extension = ''png''\<rparr>
     = Inr (words_text 10) \<and>
   ProcessAudioInput_process (answering (words_text 9) ''en'') \<lparr>audio_path = ''n.wav''\<rparr>
     = Inl (ValueError too_short) \<and>
   ProcessAudioInput_process (answering (words_text 10) ''en'') \<lparr>audio_path = ''n.wav''\<rparr>
     = Inr (words_text 10) \<and>
   ProcessTopic_process (answering (words_text 9) ''en'') \<lparr>topic = ''sets''\<rparr>
     = Inl (ValueError too_short) \<and>
   ProcessTopic_process (answering (words_text 2000) ''en'') \<lparr>topic = ''sets''\<rparr>
     = Inr (words_text 2000) \<and>
   ProcessUserBackground_process (answering (words_text 9) ''en'') \<lparr>user_bio = student\<rparr>
     = Inl (ValueError too_short) \<and>
   ProcessUserBackground_process (answering (words_text 10) ''en'') \<lparr>user_bio = student\<rparr>
     = Inr (words_text 10)"
  using
    extraction_min_words [of "answering (words_text 9) ''en''"
      "\<lparr>image_path = ''n.png'', extension = ''png''\<rparr>" "\<lparr>audio_path = ''n.wav''\<rparr>"
      "\<lparr>topic = ''sets''\<rparr>" "\<lparr>user_bio = student\<rparr>"]
    extraction_min_words [of "answering (words_text 10) ''en''"
      "\<lparr>image_path = ''n.png'', extension = ''png''\<rparr>" "\<lparr>audio_path = ''n.wav''\<rparr>"
      "\<lparr>topic = ''sets''\<rparr>" "\<lparr>user_bio = student\<rparr>"]
    extraction_min_words [of "answering (words_text 2000) ''en''"
      "\<lparr>image_path = ''n.png'', extension = ''png''\<rparr>" "\<lparr>audio_path = ''n.wav''\<rparr>"
      "\<lparr>topic = ''sets''\<rparr>" "\<lparr>user_bio = student\<rparr>"]
  by (simp add: answering_def length_words_text)

section \<open>ProcessAudioInput: language and length\<close>

text \<open>
  C9. A transcription whose detected language is not \<open>en\<close> always fails with a
  \<open>ValueError\<close>, whatever the word count: the too-short one under 10 words, the
  not-English one otherwise.
\<close>

theorem audio_not_english_fails:
  assumes "language (transcribe sv (audio_path self)) \<noteq> ''en''"
  shows "ProcessAudioInput_process sv self =
           Inl (ValueError (if length (str_split (transcript_text (transcribe sv (audio_path self)))) < 10
                            then too_short else not_english))"
  using assms by (simp add: ProcessAudioInput_process_def Let_def)

theorem audio_not_english_fails_witness:
  "ProcessAudioInput_process (answering (words_text 3) ''de'') \<lparr>audio_path = ''memo.wav''\<rparr>
     = Inl (ValueError too_short) \<and>
   ProcessAudioInput_process (answering (words_text 500) ''de'') \<lparr>audio_path = ''memo.wav''\<rparr>
     = Inl (ValueError not_english)"
proof -
  have de: "language (transcribe (answering t ''de'') p) \<noteq> ''en''" for t p
    by (simp add: answering_def)
  show ?thesis
    using audio_not_english_fails [OF de, of "words_text 3" "\<lparr>audio_path = ''memo.wav''\<rparr>"]
      audio_not_english_fails [OF de, of "words_text 500" "\<lparr>audio_path = ''memo.wav''\<rparr>"]
    by (simp add: answering_def length_words_text)
qed

text \<open>
  C10. The length is checked before the language: a transcript of fewer than 10 words
  fails with the too-short \<open>ValueError\<close> whatever the detected language, and the
  not-English \<open>ValueError\<close> is raised only for a transcript of at least 10 words.
\<close>

theorem audio_length_before_language:
  "(length (str_split (transcript_text (transcribe sv (audio_path self)))) < 10
      \<longrightarrow> ProcessAudioInput_process sv self = Inl (ValueError too_short)) \<and>
   (ProcessAudioInput_process sv self = Inl (ValueError not_english)
      \<longrightarrow> 10 \<le> length (str_split (transcript_text (transcribe sv (audio_path self)))) \<and>
          language (transcribe sv (audio_path self)) \<noteq> ''en'')"
  by (simp add: ProcessAudioInput_process_def Let_def message_distinct)

theorem audio_length_before_language_witness:
  "ProcessAudioInput_process (answering (words_text 9) ''ja'') \<lparr>audio_path = ''class.mp3''\<rparr>
     = Inl (ValueError too_short) \<and>
   ProcessAudioInput_process (answering (words_text 10) ''ja'') \<lparr>audio_path = ''class.mp3''\<rparr>
     = Inl (ValueError not_english) \<and>
   10 \<le> length (str_split (transcript_text
           (transcribe (answering (words_text 10) ''ja'') (audio_path \<lparr>audio_path = ''class.mp3''\<rparr>))))"
proof -
  have long: "ProcessAudioInput_process (answering (words_text 10) ''ja'') \<lparr>audio_path = ''class.mp3''\<rparr>
     = Inl (ValueError not_english)"
    by (simp add: ProcessAudioInput_process_def answering_def length_words_text)
  show ?thesis
    using audio_length_before_language [of "answering (words_text 9) ''ja''" "\<lparr>audio_path = ''class.mp3''\<rparr>"]
      audio_length_before_language [of "answering (words_text 10) ''ja''" "\<lparr>audio_path = ''class.mp3''\<rparr>"]
      long
    by (simp add: answering_def length_words_text)
qed

end
